theory Spec2Isabelle
  imports Complex_Main
begin

section \<open>Values exchanged with the handlers\<close>

text \<open>
  The handlers of \<^verbatim>\<open>app.py\<close> read a JSON request body and answer with
  \<^verbatim>\<open>jsonify(...), status\<close>. A response body is a JSON object, kept here as an
  association list in the order the source writes its keys. A \<open>string\<close> stands for a
  Python \<^verbatim>\<open>str\<close>, one \<open>char\<close> for each character, so \<open>length\<close> is Python's
  \<^verbatim>\<open>len\<close>. Python floats (a price, a polarity, the random draw) are read as the reals
  they denote.
\<close>

datatype jval =
    JNull
  | JBool bool
  | JInt int
  | JFloat real
  | JStr string
  | JList "jval list"
  | JObj "(string \<times> jval) list"

text \<open>
  What a handler gives back: a JSON body with a status code, the \<^verbatim>\<open>abort(404)\<close> of
  \<^verbatim>\<open>get_or_404\<close>, or an exception nobody catches (named by its class), which Flask
  turns into a server error.
\<close>

datatype response =
    Response "(string \<times> jval) list" int
  | Abort int
  | Uncaught string

fun status_code :: "response \<Rightarrow> int" where
  "status_code (Response b s) = s"
| "status_code (Abort s) = s"
| "status_code (Uncaught e) = 500"

fun body_field :: "response \<Rightarrow> string \<Rightarrow> jval option" where
  "body_field (Response b s) k = map_of b k"
| "body_field (Abort s) k = None"
| "body_field (Uncaught e) k = None"

text \<open>
  \<^verbatim>\<open>jsonify\<close> of a value that is either a string or \<^verbatim>\<open>None\<close>.
\<close>

fun json_of_optional :: "string option \<Rightarrow> jval" where
  "json_of_optional None = JNull"
| "json_of_optional (Some s) = JStr s"

section \<open>Python's \<^verbatim>\<open>str\<close>\<close>

text \<open>
  The value found under a key of \<^verbatim>\<open>card_details\<close>. The gateway only ever looks at
  \<^verbatim>\<open>str(card_number)\<close>, so a value that is neither a string, an integer, a boolean
  nor null (a float, an array, an object) is carried as \<open>POther\<close> with the text
  \<^verbatim>\<open>str\<close> gives for it.
\<close>

datatype pyval =
    PStr string
  | PInt int
  | PBool bool
  | PNone
  | POther string

definition digit_char :: "nat \<Rightarrow> char" where
  "digit_char d = ''0123456789'' ! d"

definition is_digit :: "char \<Rightarrow> bool" where
  "is_digit c = (c \<in> set ''0123456789'')"

text \<open>Decimal digits of a natural number, most significant first.\<close>

function str_nat :: "nat \<Rightarrow> string" where
  "str_nat n = (if n < 10 then [digit_char n] else str_nat (n div 10) @ [digit_char (n mod 10)])"
  by pat_completeness auto
termination
  by (relation "measure id") auto

declare str_nat.simps [simp del]

definition str_int :: "int \<Rightarrow> string" where
  "str_int i = (if i < 0 then CHR ''-'' # str_nat (nat (- i)) else str_nat (nat i))"

fun py_str :: "pyval \<Rightarrow> string" where
  "py_str (PStr s) = s"
| "py_str (PInt i) = str_int i"
| "py_str (PBool b) = (if b then ''True'' else ''False'')"
| "py_str PNone = ''None''"
| "py_str (POther s) = s"

section \<open>The payment gateway (\<^verbatim>\<open>payment_service.py\<close>)\<close>

text \<open>
  \<^verbatim>\<open>process_payment\<close> returns a dictionary with the keys \<^verbatim>\<open>success\<close>,
  \<^verbatim>\<open>transaction_id\<close> and \<^verbatim>\<open>error\<close>; a key the source leaves out, or sets to
  \<^verbatim>\<open>None\<close>, is \<open>None\<close> here.
\<close>

record payment_response =
  success :: bool
  transaction_id :: "string option"
  error :: "string option"

text \<open>
  \<^verbatim>\<open>card_details.get('number', '')\<close> on the dictionary of card fields, an association
  list with one entry for each key.
\<close>

definition card_number_of :: "(string \<times> pyval) list \<Rightarrow> pyval" where
  "card_number_of card_details =
     (case map_of card_details ''number'' of None \<Rightarrow> PStr [] | Some v \<Rightarrow> v)"

text \<open>
  \<^verbatim>\<open>MockPaymentGateway.process_payment(card_details, amount)\<close>. The two values the
  function draws from its environment are arguments: \<open>draw\<close> is the result of
  \<^verbatim>\<open>random.random()\<close> and \<open>uuid_hex\<close> the text of \<^verbatim>\<open>uuid.uuid4().hex\<close>. The
  \<^verbatim>\<open>print\<close> of the amount and the two-second \<^verbatim>\<open>time.sleep\<close> change no value and
  are left out; nothing else reads \<open>amount\<close>.
\<close>

definition process_payment ::
  "(string \<times> pyval) list \<Rightarrow> real \<Rightarrow> real \<Rightarrow> string \<Rightarrow> payment_response" where
  "process_payment card_details amount draw uuid_hex =
     (let card_number = card_number_of card_details in
      if length (py_str card_number) \<noteq> 16 then
        \<lparr>success = False, transaction_id = None,
         error = Some ''Invalid Card Number: Must be 16 digits.''\<rparr>
      else if draw < 0.1 then
        \<lparr>success = False, transaction_id = None,
         error = Some ''Transaction Declined: Insufficient Funds.''\<rparr>
      else
        \<lparr>success = True, transaction_id = Some (''txn_'' @ take 10 uuid_hex),
         error = None\<rparr>)"

section \<open>The tables (\<^verbatim>\<open>app.py\<close>, lines 49 to 129)\<close>

text \<open>
  One record for each model class the handlers below touch; a field is named after its
  column, with the table's prefix because every table has an \<^verbatim>\<open>id\<close>. A table is the
  list of its rows in insertion order, so \<^verbatim>\<open>query.filter_by(...).first()\<close> is
  \<open>find\<close>. None of the classes declares a uniqueness constraint on
  \<^verbatim>\<open>Seat.code\<close> or on the pair \<^verbatim>\<open>(Booking.showtime_id, Booking.seat_code)\<close>, so the
  store accepts every insert. Foreign keys are not checked.
\<close>

record theater =
  t_id :: int
  t_name :: string
  t_location :: string

record showtime =
  sh_id :: int
  sh_show_time :: string
  sh_price :: real
  sh_movie_id :: int
  sh_theater_id :: int

record seat =
  seat_id :: int
  seat_row :: string
  seat_number :: int
  seat_code :: string
  seat_theater_id :: int

record booking =
  bk_id :: int
  bk_seat_code :: string
  bk_user_id :: int
  bk_showtime_id :: int

record review =
  rv_id :: int
  rv_text :: string
  rv_rating :: int
  rv_sentiment_score :: real
  rv_user_id :: int
  rv_movie_id :: int

text \<open>
  What a handler does to the world outside its own tables, in the order it does it: a
  \<^verbatim>\<open>db.session.commit()\<close>, recorded with the rows it makes durable, and a
  \<^verbatim>\<open>socketio.emit(name, payload)\<close>.
\<close>

datatype row = SeatRow seat | BookingRow booking | ReviewRow review

datatype effect =
    Commit "row list"
  | Emit string "(string \<times> jval) list"

text \<open>The persistent store together with the effects so far, oldest first.\<close>

record state =
  theaters :: "theater list"
  showtimes :: "showtime list"
  seats :: "seat list"
  bookings :: "booking list"
  reviews :: "review list"
  effects :: "effect list"

text \<open>The integer primary key given to a new row: one more than the largest in use.\<close>

definition fresh_id :: "int list \<Rightarrow> int" where
  "fresh_id ids = fold max ids 0 + 1"

text \<open>
  \<^verbatim>\<open>db.session.commit()\<close> after the request has added \<open>rows\<close> with
  \<^verbatim>\<open>db.session.add\<close>. The tables already hold the added rows (a query of the same
  request would see them); the commit is what the list of effects records.
\<close>

definition db_session_commit :: "row list \<Rightarrow> state \<Rightarrow> state" where
  "db_session_commit rows st = st\<lparr>effects := effects st @ [Commit rows]\<rparr>"

definition socketio_emit :: "string \<Rightarrow> (string \<times> jval) list \<Rightarrow> state \<Rightarrow> state" where
  "socketio_emit name payload st = st\<lparr>effects := effects st @ [Emit name payload]\<rparr>"

text \<open>The events handed to \<^verbatim>\<open>socketio.emit\<close> so far, oldest first.\<close>

fun events :: "effect list \<Rightarrow> (string \<times> (string \<times> jval) list) list" where
  "events [] = []"
| "events (Commit rows # es) = events es"
| "events (Emit name payload # es) = (name, payload) # events es"

definition emitted :: "state \<Rightarrow> (string \<times> (string \<times> jval) list) list" where
  "emitted st = events (effects st)"

section \<open>\<^verbatim>\<open>add_seats_to_theater\<close> (lines 136 to 157)\<close>

text \<open>
  The body \<^verbatim>\<open>{"rows": [...], "seats_per_row": n}\<close>; a field is \<open>None\<close> when the key
  is missing, and \<^verbatim>\<open>data[...]\<close> then raises \<^verbatim>\<open>KeyError\<close>.
\<close>

record seats_data =
  data_rows :: "string list option"
  data_seats_per_row :: "int option"

text \<open>\<^verbatim>\<open>f"{row}{num}"\<close>\<close>

definition seat_code_of :: "string \<Rightarrow> int \<Rightarrow> string" where
  "seat_code_of row num = row @ str_int num"

text \<open>
  One turn of the inner loop: \<^verbatim>\<open>db.session.add(new_seat)\<close> and
  \<^verbatim>\<open>created_seats.append(code)\<close>. The accumulator is the pair of the store and
  \<^verbatim>\<open>created_seats\<close>.
\<close>

definition add_seat :: "int \<Rightarrow> string \<Rightarrow> int \<Rightarrow> state \<times> string list \<Rightarrow> state \<times> string list" where
  "add_seat tid row num acc =
     (let st = fst acc; created_seats = snd acc; code = seat_code_of row num;
          new_seat = \<lparr>seat_id = fresh_id (map seat_id (seats st)), seat_row = row,
                      seat_number = num, seat_code = code, seat_theater_id = tid\<rparr>
      in (st\<lparr>seats := seats st @ [new_seat]\<rparr>, created_seats @ [code]))"

text \<open>
  \<^verbatim>\<open>for num in range(1, seats_per_row + 1)\<close> inside \<^verbatim>\<open>for row in rows\<close>;
  \<open>[1..n]\<close> is empty when \<open>n < 1\<close>, as the range is.
\<close>

definition add_row :: "int \<Rightarrow> int \<Rightarrow> string \<Rightarrow> state \<times> string list \<Rightarrow> state \<times> string list" where
  "add_row tid n row acc = fold (add_seat tid row) [1..n] acc"

definition add_rows :: "int \<Rightarrow> int \<Rightarrow> string list \<Rightarrow> state \<Rightarrow> state \<times> string list" where
  "add_rows tid n rows st = fold (add_row tid n) rows (st, [])"

text \<open>
  The codes a request asks for, in the order of the two loops; no code when a key is
  missing.
\<close>

definition requested_codes :: "seats_data \<Rightarrow> string list" where
  "requested_codes data =
     (case data_rows data of
        None \<Rightarrow> []
      | Some rows \<Rightarrow>
          (case data_seats_per_row data of
             None \<Rightarrow> []
           | Some n \<Rightarrow> concat (map (\<lambda>row. map (seat_code_of row) [1..n]) rows)))"

text \<open>
  The handler. \<^verbatim>\<open>data['seats_per_row']\<close> is read in the outer loop's body, so a
  missing key only raises when there is a row; an exception before
  \<^verbatim>\<open>db.session.commit()\<close> leaves the store as it was. The rows committed are the seats
  the loops added.
\<close>

definition add_seats_to_theater :: "int \<Rightarrow> seats_data \<Rightarrow> state \<Rightarrow> response \<times> state" where
  "add_seats_to_theater theater_id data st =
     (case find (\<lambda>t. t_id t = theater_id) (theaters st) of
        None \<Rightarrow> (Abort 404, st)
      | Some theater \<Rightarrow>
          (case data_rows data of
             None \<Rightarrow> (Uncaught ''KeyError'', st)
           | Some rows \<Rightarrow>
               (case data_seats_per_row data of
                  None \<Rightarrow>
                    if rows = [] then
                      (Response [(''message'', JStr (''Created '' @ str_int 0 @ '' seats for '' @ t_name theater)),
                                 (''seats'', JList [])] 201, db_session_commit [] st)
                    else (Uncaught ''KeyError'', st)
                | Some n \<Rightarrow>
                    (let r = add_rows (t_id theater) n rows st;
                         created_seats = snd r;
                         new_seats = drop (length (seats st)) (seats (fst r));
                         committed = db_session_commit (map SeatRow new_seats) (fst r)
                     in (Response [(''message'', JStr (''Created '' @ str_int (int (length created_seats))
                                       @ '' seats for '' @ t_name theater)),
                                   (''seats'', JList (map JStr created_seats))] 201,
                         committed)))))"

section \<open>\<^verbatim>\<open>book_ticket\<close> (lines 289 to 358)\<close>

text \<open>
  The body \<^verbatim>\<open>{"showtime_id": ..., "seat_code": ..., "card_details": {...}}\<close>. The
  first two are read with \<^verbatim>\<open>data[...]\<close> and raise \<^verbatim>\<open>KeyError\<close> when missing; the
  third is read with \<^verbatim>\<open>data.get('card_details', {})\<close>. A \<^verbatim>\<open>card_details\<close> that is
  present is taken to be a JSON object.
\<close>

record booking_data =
  data_showtime_id :: "int option"
  data_seat_code :: "string option"
  data_card_details :: "(string \<times> pyval) list option"

text \<open>
  Lines 293 to 319: the three look-ups. The result is either the response the handler
  returns at once, or the showtime id, the seat code and the showtime row with which it
  goes on. Nothing is written.
\<close>

definition book_ticket_checks :: "booking_data \<Rightarrow> state \<Rightarrow> response + (int \<times> string \<times> showtime)" where
  "book_ticket_checks data st =
     (case data_showtime_id data of
        None \<Rightarrow> Inl (Uncaught ''KeyError'')
      | Some sid \<Rightarrow>
          (case find (\<lambda>s. sh_id s = sid) (showtimes st) of
             None \<Rightarrow> Inl (Response [(''message'', JStr ''Showtime not found'')] 404)
           | Some showtime \<Rightarrow>
               (case data_seat_code data of
                  None \<Rightarrow> Inl (Uncaught ''KeyError'')
                | Some code \<Rightarrow>
                    (case find (\<lambda>s. seat_theater_id s = sh_theater_id showtime \<and> seat_code s = code)
                            (seats st) of
                       None \<Rightarrow>
                         Inl (Response [(''message'', JStr (''Seat '' @ code @ '' does not exist in this theater!''))] 400)
                     | Some seat_exists \<Rightarrow>
                         (case find (\<lambda>b. bk_showtime_id b = sid \<and> bk_seat_code b = code) (bookings st) of
                            Some existing_booking \<Rightarrow>
                              Inl (Response [(''message'', JStr ''Sorry, that seat is already booked!'')] 400)
                          | None \<Rightarrow> Inr (sid, code, showtime))))))"

text \<open>\<^verbatim>\<open>data.get('card_details', {})\<close>\<close>

definition card_info_of :: "booking_data \<Rightarrow> (string \<times> pyval) list" where
  "card_info_of data = (case data_card_details data of None \<Rightarrow> [] | Some c \<Rightarrow> c)"

text \<open>
  Lines 321 to 358: payment, then \<^verbatim>\<open>db.session.add\<close> and \<^verbatim>\<open>db.session.commit\<close>, then
  the broadcast.
  \<open>current_user_id\<close> is the identity \<^verbatim>\<open>get_jwt_identity()\<close> returns, the requester's
  user id; \<open>draw\<close> and \<open>uuid_hex\<close> are what the gateway draws during this request.
\<close>

definition book_ticket_pay ::
  "int \<Rightarrow> booking_data \<Rightarrow> int \<times> string \<times> showtime \<Rightarrow> real \<Rightarrow> string \<Rightarrow> state \<Rightarrow> response \<times> state" where
  "book_ticket_pay current_user_id data checked draw uuid_hex st =
     (let sid = fst checked; code = fst (snd checked); showtime = snd (snd checked);
          card_info = card_info_of data;
          price = sh_price showtime;
          payment_response = process_payment card_info price draw uuid_hex
      in if \<not> success payment_response then
           (Response [(''message'', JStr ''Payment Failed''),
                      (''error'', json_of_optional (error payment_response))] 400, st)
         else
           (let new_booking = \<lparr>bk_id = fresh_id (map bk_id (bookings st)), bk_seat_code = code,
                               bk_user_id = current_user_id, bk_showtime_id = sid\<rparr>;
                added = st\<lparr>bookings := bookings st @ [new_booking]\<rparr>;
                committed = db_session_commit [BookingRow new_booking] added;
                notified = socketio_emit ''seat_booked''
                             [(''showtime_id'', JInt sid), (''seat_code'', JStr code)] committed
            in (Response [(''message'', JStr ''Booking confirmed!''),
                          (''booking_id'', JInt (bk_id new_booking)),
                          (''transaction_id'', json_of_optional (transaction_id payment_response))] 201,
                notified)))"

text \<open>The handler run from its first line to its last with no other request in between.\<close>

definition book_ticket :: "int \<Rightarrow> booking_data \<Rightarrow> real \<Rightarrow> string \<Rightarrow> state \<Rightarrow> response \<times> state" where
  "book_ticket current_user_id data draw uuid_hex st =
     (case book_ticket_checks data st of
        Inl r \<Rightarrow> (r, st)
      | Inr checked \<Rightarrow> book_ticket_pay current_user_id data checked draw uuid_hex st)"

section \<open>\<^verbatim>\<open>add_review\<close> (lines 360 to 393)\<close>

record review_data =
  data_text :: "string option"
  data_movie_id :: "int option"
  data_rating :: "int option"

text \<open>
  \<^verbatim>\<open>TextBlob(text).sentiment.polarity\<close> is computed by a library; the handler takes it
  as the function \<open>polarity_of\<close>. \<^verbatim>\<open>data['text']\<close> is read first, then
  \<^verbatim>\<open>data['movie_id']\<close> and \<^verbatim>\<open>data['rating']\<close>.
\<close>

definition add_review :: "(string \<Rightarrow> real) \<Rightarrow> int \<Rightarrow> review_data \<Rightarrow> state \<Rightarrow> response \<times> state" where
  "add_review polarity_of current_user_id data st =
     (case data_text data of
        None \<Rightarrow> (Uncaught ''KeyError'', st)
      | Some text \<Rightarrow>
          (let polarity = polarity_of text in
           case data_movie_id data of
             None \<Rightarrow> (Uncaught ''KeyError'', st)
           | Some movie_id \<Rightarrow>
               (case data_rating data of
                  None \<Rightarrow> (Uncaught ''KeyError'', st)
                | Some rating \<Rightarrow>
                    (let new_review = \<lparr>rv_id = fresh_id (map rv_id (reviews st)), rv_text = text,
                                        rv_rating = rating, rv_sentiment_score = polarity,
                                        rv_user_id = current_user_id, rv_movie_id = movie_id\<rparr>
                     in (Response [(''message'', JStr ''Review added!''),
                                   (''sentiment_analysis'',
                                      JObj [(''score'', JFloat polarity),
                                            (''verdict'', JStr (if polarity > 0 then ''Positive'' else ''Negative''))])]
                                  201,
                         db_session_commit [ReviewRow new_review]
                           (st\<lparr>reviews := reviews st @ [new_review]\<rparr>))))))"

text \<open>The verdict a response carries, if it carries one.\<close>

definition verdict_of :: "response \<Rightarrow> jval option" where
  "verdict_of r =
     (case body_field r ''sentiment_analysis'' of
        Some (JObj analysis) \<Rightarrow> map_of analysis ''verdict''
      | _ \<Rightarrow> None)"

section \<open>Sequences of requests\<close>

text \<open>
  One booking request as the server receives it: the authenticated user, the body, and
  the two values the gateway will draw while serving it.
\<close>

record call =
  call_user :: int
  call_data :: booking_data
  call_draw :: real
  call_uuid_hex :: string

definition serve :: "call \<Rightarrow> state \<Rightarrow> response \<times> state" where
  "serve c st = book_ticket (call_user c) (call_data c) (call_draw c) (call_uuid_hex c) st"

text \<open>Requests served one after the other, each to its end before the next starts.\<close>

definition serve_all :: "call list \<Rightarrow> state \<Rightarrow> state" where
  "serve_all calls st = fold (\<lambda>c s. snd (serve c s)) calls st"

definition add_seats_all :: "(int \<times> seats_data) list \<Rightarrow> state \<Rightarrow> state" where
  "add_seats_all reqs st = fold (\<lambda>r s. snd (add_seats_to_theater (fst r) (snd r) s)) reqs st"

text \<open>
  Requests served by a server that may switch between them. A request is cut where the
  handler talks to the store: the look-ups of lines 297 to 316 are one step, and the
  payment with the insert, the commit and the broadcast of lines 327 to 352 the other,
  which begins with the gateway's two-second sleep. A schedule names, step by step, the
  request that moves next.
\<close>

datatype task =
    Arrived call
  | Checked call "int \<times> string \<times> showtime"
  | Answered response

fun step_task :: "task \<Rightarrow> state \<Rightarrow> task \<times> state" where
  "step_task (Arrived c) st =
     (case book_ticket_checks (call_data c) st of
        Inl r \<Rightarrow> (Answered r, st)
      | Inr checked \<Rightarrow> (Checked c checked, st))"
| "step_task (Checked c checked) st =
     (let r = book_ticket_pay (call_user c) (call_data c) checked (call_draw c) (call_uuid_hex c) st
      in (Answered (fst r), snd r))"
| "step_task (Answered r) st = (Answered r, st)"

fun run_schedule :: "nat list \<Rightarrow> task list \<Rightarrow> state \<Rightarrow> task list \<times> state" where
  "run_schedule [] tasks st = (tasks, st)"
| "run_schedule (i # schedule) tasks st =
     (if i < length tasks then
        (let r = step_task (tasks ! i) st
         in run_schedule schedule (tasks[i := fst r]) (snd r))
      else run_schedule schedule tasks st)"

section \<open>The properties of the store\<close>

definition bookings_for :: "int \<Rightarrow> string \<Rightarrow> state \<Rightarrow> booking list" where
  "bookings_for S C st = filter (\<lambda>b. bk_showtime_id b = S \<and> bk_seat_code b = C) (bookings st)"

definition no_double_booking :: "state \<Rightarrow> bool" where
  "no_double_booking st = distinct (map (\<lambda>b. (bk_showtime_id b, bk_seat_code b)) (bookings st))"

definition seats_with :: "int \<Rightarrow> string \<Rightarrow> state \<Rightarrow> seat list" where
  "seats_with T C st = filter (\<lambda>s. seat_theater_id s = T \<and> seat_code s = C) (seats st)"

definition seat_codes_unique :: "state \<Rightarrow> bool" where
  "seat_codes_unique st = distinct (map (\<lambda>s. (seat_theater_id s, seat_code s)) (seats st))"

text \<open>A text of exactly sixteen decimal digits.\<close>

definition sixteen_digits :: "string \<Rightarrow> bool" where
  "sixteen_digits s = (length s = 16 \<and> list_all is_digit s)"

text \<open>A body with no \<^verbatim>\<open>card_details\<close>, or whose \<^verbatim>\<open>card_details\<close> has no \<^verbatim>\<open>number\<close>.\<close>

definition lacks_card_number :: "booking_data \<Rightarrow> bool" where
  "lacks_card_number data =
     (case data_card_details data of None \<Rightarrow> True | Some c \<Rightarrow> map_of c ''number'' = None)"

section \<open>A small cinema\<close>

text \<open>
  Theater 1 with the seats A1 and A2, two showtimes in it, no booking yet; and a card
  the gateway accepts.
\<close>

definition cinema :: state where
  "cinema =
     \<lparr>theaters = [\<lparr>t_id = 1, t_name = ''Rex'', t_location = ''Main St''\<rparr>],
      showtimes = [\<lparr>sh_id = 1, sh_show_time = ''2024-12-01 18:30'', sh_price = 10,
                     sh_movie_id = 1, sh_theater_id = 1\<rparr>,
                   \<lparr>sh_id = 2, sh_show_time = ''2024-12-01 21:00'', sh_price = 12,
                     sh_movie_id = 1, sh_theater_id = 1\<rparr>],
      seats = [\<lparr>seat_id = 1, seat_row = ''A'', seat_number = 1, seat_code = ''A1'', seat_theater_id = 1\<rparr>,
               \<lparr>seat_id = 2, seat_row = ''A'', seat_number = 2, seat_code = ''A2'', seat_theater_id = 1\<rparr>],
      bookings = [], reviews = [], effects = []\<rparr>"

text \<open>
  A scorer to run the review handler with: it finds the sentence of the example
  positive and every other text, the empty one among them, neutral.
\<close>

definition sample_polarity :: "string \<Rightarrow> real" where
  "sample_polarity s = (if s = ''I loved this movie'' then 0.7 else 0)"

text \<open>The same cinema once user 7 has booked seat A1 for showtime 1.\<close>

definition cinema_A1_booked :: state where
  "cinema_A1_booked = cinema\<lparr>bookings := [\<lparr>bk_id = 1, bk_seat_code = ''A1'', bk_user_id = 7, bk_showtime_id = 1\<rparr>]\<rparr>"

text \<open>
  The cinema before any seat is registered, and the request
  \<^verbatim>\<open>{"rows": ["B"], "seats_per_row": 2}\<close>.
\<close>

definition rows_B :: seats_data where
  "rows_B = \<lparr>data_rows = Some [''B''], data_seats_per_row = Some 2\<rparr>"

definition bare_hall :: state where
  "bare_hall = cinema\<lparr>seats := []\<rparr>"

definition good_card :: "(string \<times> pyval) list" where
  "good_card = [(''number'', PStr ''4242424242424242'')]"

definition request_for :: "int \<Rightarrow> string \<Rightarrow> booking_data" where
  "request_for sid code =
     \<lparr>data_showtime_id = Some sid, data_seat_code = Some code, data_card_details = Some good_card\<rparr>"

definition call_for :: "int \<Rightarrow> int \<Rightarrow> string \<Rightarrow> call" where
  "call_for uid sid code =
     \<lparr>call_user = uid, call_data = request_for sid code, call_draw = 0.5,
      call_uuid_hex = ''0123456789abcdef0123456789abcdef''\<rparr>"

section \<open>The payment gateway's validation\<close>

lemma process_payment_rejects:
  "length (py_str (card_number_of cd)) \<noteq> 16 \<Longrightarrow>
   process_payment cd amount draw uuid_hex =
     \<lparr>success = False, transaction_id = None,
      error = Some ''Invalid Card Number: Must be 16 digits.''\<rparr>"
  by (simp add: process_payment_def)

lemma failed_payment_has_error:
  "\<not> success (process_payment cd amount draw uuid_hex) \<Longrightarrow>
   \<exists>e. error (process_payment cd amount draw uuid_hex) = Some e"
  by (simp add: process_payment_def Let_def split: if_splits)

text \<open>
  C2, as the code has it: a card number whose string form does not have exactly 16
  characters is always refused with the invalid-card error, whatever the random draw
  and the generated identifier are. The gateway compares the length only; it never
  looks at what the characters are.
\<close>

theorem invalid_length_rejected:
  assumes "length (py_str (card_number_of card_details)) \<noteq> 16"
  shows "process_payment card_details amount draw uuid_hex =
           \<lparr>success = False, transaction_id = None,
            error = Some ''Invalid Card Number: Must be 16 digits.''\<rparr>"
  using assms by (rule process_payment_rejects)

theorem invalid_length_rejected_witness:
  "length (py_str (card_number_of [(''number'', PInt 4242)])) \<noteq> 16 \<and>
   process_payment [(''number'', PInt 4242)] 10 0.5 ''0123456789abcdef0123456789abcdef'' =
     \<lparr>success = False, transaction_id = None,
      error = Some ''Invalid Card Number: Must be 16 digits.''\<rparr>"
proof -
  have len: "length (py_str (card_number_of [(''number'', PInt 4242)])) \<noteq> 16"
    by (simp add: card_number_of_def str_int_def str_nat.simps)
  from len invalid_length_rejected [OF len, of 10 "0.5" "''0123456789abcdef0123456789abcdef''"]
  show ?thesis by simp
qed

text \<open>
  C2 as stated fails: the card number \<^verbatim>\<open>"abcdefghijklmnop"\<close> is not sixteen digits, yet
  with a draw of 0.5 the gateway accepts it and issues a transaction id.
\<close>

theorem sixteen_letters_accepted:
  "\<not> sixteen_digits (py_str (card_number_of [(''number'', PStr ''abcdefghijklmnop'')])) \<and>
   process_payment [(''number'', PStr ''abcdefghijklmnop'')] 10 0.5 ''0123456789abcdef0123456789abcdef'' =
     \<lparr>success = True, transaction_id = Some ''txn_0123456789'', error = None\<rparr>"
  by (simp add: sixteen_digits_def is_digit_def card_number_of_def process_payment_def)

section \<open>Outcomes of a booking request\<close>

lemma book_ticket_rejected:
  "book_ticket_checks data st = Inl r \<Longrightarrow> book_ticket uid data draw uuid_hex st = (r, st)"
  by (simp add: book_ticket_def)

lemma book_ticket_cleared:
  "book_ticket_checks data st = Inr checked \<Longrightarrow>
   book_ticket uid data draw uuid_hex st = book_ticket_pay uid data checked draw uuid_hex st"
  by (simp add: book_ticket_def)

lemma book_ticket_pay_failed:
  "\<not> success (process_payment (card_info_of data) (sh_price (snd (snd checked))) draw uuid_hex) \<Longrightarrow>
   book_ticket_pay uid data checked draw uuid_hex st =
     (Response [(''message'', JStr ''Payment Failed''),
                (''error'', json_of_optional
                   (error (process_payment (card_info_of data) (sh_price (snd (snd checked))) draw uuid_hex)))]
        400, st)"
  by (simp add: book_ticket_pay_def Let_def)

lemma checks_showtime_missing:
  "data_showtime_id data = Some sid \<Longrightarrow> find (\<lambda>s. sh_id s = sid) (showtimes st) = None \<Longrightarrow>
   book_ticket_checks data st = Inl (Response [(''message'', JStr ''Showtime not found'')] 404)"
  by (simp add: book_ticket_checks_def)

lemma checks_seat_missing:
  "data_showtime_id data = Some sid \<Longrightarrow> find (\<lambda>s. sh_id s = sid) (showtimes st) = Some showtime \<Longrightarrow>
   data_seat_code data = Some code \<Longrightarrow>
   find (\<lambda>s. seat_theater_id s = sh_theater_id showtime \<and> seat_code s = code) (seats st) = None \<Longrightarrow>
   book_ticket_checks data st =
     Inl (Response [(''message'', JStr (''Seat '' @ code @ '' does not exist in this theater!''))] 400)"
  by (simp add: book_ticket_checks_def)

text \<open>
  C3: when the three look-ups pass and the gateway reports failure, the handler answers
  400 with the message \<^verbatim>\<open>Payment Failed\<close> and, under \<^verbatim>\<open>error\<close>, the very error text the
  gateway returned; the state it leaves is the state it found, so no booking is
  written and nothing is emitted.
\<close>

theorem payment_failure_persists_nothing:
  assumes "book_ticket_checks data st = Inr checked"
    and "\<not> success (process_payment (card_info_of data) (sh_price (snd (snd checked))) draw uuid_hex)"
  shows "\<exists>e. error (process_payment (card_info_of data) (sh_price (snd (snd checked))) draw uuid_hex) = Some e \<and>
             book_ticket uid data draw uuid_hex st =
               (Response [(''message'', JStr ''Payment Failed''), (''error'', JStr e)] 400, st)"
proof -
  from failed_payment_has_error [OF assms(2)] obtain e
    where e: "error (process_payment (card_info_of data) (sh_price (snd (snd checked))) draw uuid_hex) = Some e"
    by blast
  have "book_ticket uid data draw uuid_hex st = book_ticket_pay uid data checked draw uuid_hex st"
    using assms(1) by (rule book_ticket_cleared)
  also have "\<dots> = (Response [(''message'', JStr ''Payment Failed''), (''error'', JStr e)] 400, st)"
    using book_ticket_pay_failed [OF assms(2), of uid st] e by simp
  finally show ?thesis using e by blast
qed

lemma cinema_checks_A1:
  "book_ticket_checks \<lparr>data_showtime_id = Some 1, data_seat_code = Some ''A1'', data_card_details = cd\<rparr> cinema =
     Inr (1, ''A1'', \<lparr>sh_id = 1, sh_show_time = ''2024-12-01 18:30'', sh_price = 10,
                     sh_movie_id = 1, sh_theater_id = 1\<rparr>)"
  by (simp add: book_ticket_checks_def cinema_def)

theorem payment_failure_persists_nothing_witness:
  "book_ticket 7 \<lparr>data_showtime_id = Some 1, data_seat_code = Some ''A1'', data_card_details = Some good_card\<rparr>
      0.05 ''0123456789abcdef0123456789abcdef'' cinema =
     (Response [(''message'', JStr ''Payment Failed''),
                (''error'', JStr ''Transaction Declined: Insufficient Funds.'')] 400, cinema)"
proof -
  let ?d = "\<lparr>data_showtime_id = Some 1, data_seat_code = Some ''A1'', data_card_details = Some good_card\<rparr>"
  let ?sh = "\<lparr>sh_id = 1, sh_show_time = ''2024-12-01 18:30'', sh_price = 10, sh_movie_id = 1, sh_theater_id = 1\<rparr>"
  have pay: "process_payment (card_info_of ?d) (sh_price (snd (snd (1::int, ''A1'', ?sh)))) 0.05 ''0123456789abcdef0123456789abcdef''
       = \<lparr>success = False, transaction_id = None, error = Some ''Transaction Declined: Insufficient Funds.''\<rparr>"
    by (simp add: process_payment_def card_info_of_def good_card_def card_number_of_def)
  have fails: "\<not> success (process_payment (card_info_of ?d) (sh_price (snd (snd (1::int, ''A1'', ?sh)))) 0.05 ''0123456789abcdef0123456789abcdef'')"
    by (simp only: pay) simp
  from payment_failure_persists_nothing [OF cinema_checks_A1 fails, of 7]
  show ?thesis by (simp only: pay) simp
qed

text \<open>
  C4: a request whose showtime id names no row of the showtime table is answered 404
  with \<^verbatim>\<open>Showtime not found\<close>, and the state is left as it was.
\<close>

theorem missing_showtime_not_found:
  assumes "data_showtime_id data = Some sid"
    and "find (\<lambda>s. sh_id s = sid) (showtimes st) = None"
  shows "book_ticket uid data draw uuid_hex st =
           (Response [(''message'', JStr ''Showtime not found'')] 404, st)"
  using checks_showtime_missing [OF assms] by (rule book_ticket_rejected)

theorem missing_showtime_not_found_witness:
  "book_ticket 7 (request_for 9 ''A1'') 0.5 ''0123456789abcdef0123456789abcdef'' cinema =
     (Response [(''message'', JStr ''Showtime not found'')] 404, cinema)"
proof -
  have a: "data_showtime_id (request_for 9 ''A1'') = Some 9" by (simp add: request_for_def)
  have b: "find (\<lambda>s. sh_id s = 9) (showtimes cinema) = None" by (simp add: cinema_def)
  from missing_showtime_not_found [OF a b] show ?thesis .
qed

text \<open>
  C5: when the showtime exists and no seat of its theater has the requested code, the
  request is answered 400 with the message that the seat does not exist in this
  theater, and the state is left as it was: no booking is created.
\<close>

theorem unknown_seat_invalid:
  assumes "data_showtime_id data = Some sid"
    and "find (\<lambda>s. sh_id s = sid) (showtimes st) = Some showtime"
    and "data_seat_code data = Some code"
    and "\<forall>s \<in> set (seats st). seat_theater_id s = sh_theater_id showtime \<longrightarrow> seat_code s \<noteq> code"
  shows "book_ticket uid data draw uuid_hex st =
           (Response [(''message'', JStr (''Seat '' @ code @ '' does not exist in this theater!''))] 400, st)"
proof -
  have "find (\<lambda>s. seat_theater_id s = sh_theater_id showtime \<and> seat_code s = code) (seats st) = None"
    using assms(4) by (auto simp: find_None_iff)
  from checks_seat_missing [OF assms(1-3) this] show ?thesis by (rule book_ticket_rejected)
qed

theorem unknown_seat_invalid_witness:
  "book_ticket 7 (request_for 1 ''Z9'') 0.5 ''0123456789abcdef0123456789abcdef'' cinema =
     (Response [(''message'', JStr ''Seat Z9 does not exist in this theater!'')] 400, cinema)"
proof -
  let ?sh = "\<lparr>sh_id = 1, sh_show_time = ''2024-12-01 18:30'', sh_price = 10, sh_movie_id = 1, sh_theater_id = 1\<rparr>"
  have a: "data_showtime_id (request_for 1 ''Z9'') = Some 1" by (simp add: request_for_def)
  have b: "find (\<lambda>s. sh_id s = 1) (showtimes cinema) = Some ?sh" by (simp add: cinema_def)
  have c: "data_seat_code (request_for 1 ''Z9'') = Some ''Z9''" by (simp add: request_for_def)
  have d: "\<forall>s \<in> set (seats cinema). seat_theater_id s = sh_theater_id ?sh \<longrightarrow> seat_code s \<noteq> ''Z9''"
    by (simp add: cinema_def)
  from unknown_seat_invalid [OF a b c d] show ?thesis by simp
qed

lemma book_ticket_pay_approved:
  "success (process_payment (card_info_of data) (sh_price (snd (snd checked))) draw uuid_hex) \<Longrightarrow>
   book_ticket_pay uid data checked draw uuid_hex st =
     (Response [(''message'', JStr ''Booking confirmed!''),
                (''booking_id'', JInt (fresh_id (map bk_id (bookings st)))),
                (''transaction_id'', json_of_optional
                   (transaction_id (process_payment (card_info_of data) (sh_price (snd (snd checked))) draw uuid_hex)))]
        201,
      socketio_emit ''seat_booked''
        [(''showtime_id'', JInt (fst checked)), (''seat_code'', JStr (fst (snd checked)))]
        (db_session_commit
           [BookingRow \<lparr>bk_id = fresh_id (map bk_id (bookings st)), bk_seat_code = fst (snd checked),
                        bk_user_id = uid, bk_showtime_id = fst checked\<rparr>]
           (st\<lparr>bookings := bookings st @
               [\<lparr>bk_id = fresh_id (map bk_id (bookings st)), bk_seat_code = fst (snd checked),
                 bk_user_id = uid, bk_showtime_id = fst checked\<rparr>]\<rparr>)))"
  by (simp add: book_ticket_pay_def Let_def)

lemma checks_rejection_not_created:
  "book_ticket_checks data st = Inl r \<Longrightarrow> status_code r \<noteq> 201"
  by (auto simp: book_ticket_checks_def split: option.splits)

lemma checks_cleared_fields:
  "book_ticket_checks data st = Inr checked \<Longrightarrow>
   data_showtime_id data = Some (fst checked) \<and> data_seat_code data = Some (fst (snd checked)) \<and>
   find (\<lambda>s. sh_id s = fst checked) (showtimes st) = Some (snd (snd checked)) \<and>
   find (\<lambda>b. bk_showtime_id b = fst checked \<and> bk_seat_code b = fst (snd checked)) (bookings st) = None"
  by (auto simp: book_ticket_checks_def split: option.splits)

lemma checks_all_pass:
  "data_showtime_id data = Some sid \<Longrightarrow> find (\<lambda>s. sh_id s = sid) (showtimes st) = Some showtime \<Longrightarrow>
   data_seat_code data = Some code \<Longrightarrow>
   find (\<lambda>s. seat_theater_id s = sh_theater_id showtime \<and> seat_code s = code) (seats st) = Some seat_exists \<Longrightarrow>
   find (\<lambda>b. bk_showtime_id b = sid \<and> bk_seat_code b = code) (bookings st) = None \<Longrightarrow>
   book_ticket_checks data st = Inr (sid, code, showtime)"
  by (simp add: book_ticket_checks_def)

lemma checks_seat_taken:
  "data_showtime_id data = Some sid \<Longrightarrow> find (\<lambda>s. sh_id s = sid) (showtimes st) = Some showtime \<Longrightarrow>
   data_seat_code data = Some code \<Longrightarrow>
   find (\<lambda>s. seat_theater_id s = sh_theater_id showtime \<and> seat_code s = code) (seats st) = Some seat_exists \<Longrightarrow>
   find (\<lambda>b. bk_showtime_id b = sid \<and> bk_seat_code b = code) (bookings st) = Some existing_booking \<Longrightarrow>
   book_ticket_checks data st = Inl (Response [(''message'', JStr ''Sorry, that seat is already booked!'')] 400)"
  by (simp add: book_ticket_checks_def)

lemma lacks_card_number_invalid:
  "lacks_card_number data \<Longrightarrow>
   process_payment (card_info_of data) amount draw uuid_hex =
     \<lparr>success = False, transaction_id = None,
      error = Some ''Invalid Card Number: Must be 16 digits.''\<rparr>"
  by (rule process_payment_rejects)
     (auto simp: lacks_card_number_def card_info_of_def card_number_of_def split: option.splits)

text \<open>
  C10, as the code has it: a request whose body has no \<^verbatim>\<open>card_details\<close>, or whose \<^verbatim>\<open>card_details\<close> has no
  \<^verbatim>\<open>number\<close>, never creates a booking and is never answered 201; once it has passed the
  three look-ups it is answered as a failed payment, 400 with \<^verbatim>\<open>Payment Failed\<close> and the
  invalid-card error, and the state is left as it was. The handler has no separate
  answer for a malformed body.
\<close>

theorem missing_card_is_payment_failure:
  assumes "lacks_card_number data"
  shows "bookings (snd (book_ticket uid data draw uuid_hex st)) = bookings st \<and>
         status_code (fst (book_ticket uid data draw uuid_hex st)) \<noteq> 201 \<and>
         (\<forall>checked. book_ticket_checks data st = Inr checked \<longrightarrow>
            book_ticket uid data draw uuid_hex st =
              (Response [(''message'', JStr ''Payment Failed''),
                         (''error'', JStr ''Invalid Card Number: Must be 16 digits.'')] 400, st))"
proof (cases "book_ticket_checks data st")
  case (Inl r)
  then show ?thesis
    using checks_rejection_not_created [OF Inl] by (simp add: book_ticket_def)
next
  case (Inr checked)
  have "book_ticket uid data draw uuid_hex st =
          (Response [(''message'', JStr ''Payment Failed''),
                     (''error'', JStr ''Invalid Card Number: Must be 16 digits.'')] 400, st)"
    using Inr lacks_card_number_invalid [OF assms]
    by (simp add: book_ticket_def book_ticket_pay_def Let_def)
  then show ?thesis using Inr by simp
qed

theorem missing_card_is_payment_failure_witness:
  "lacks_card_number \<lparr>data_showtime_id = Some 1, data_seat_code = Some ''A1'', data_card_details = None\<rparr> \<and>
   book_ticket 7 \<lparr>data_showtime_id = Some 1, data_seat_code = Some ''A1'', data_card_details = None\<rparr>
      0.5 ''0123456789abcdef0123456789abcdef'' cinema =
     (Response [(''message'', JStr ''Payment Failed''),
                (''error'', JStr ''Invalid Card Number: Must be 16 digits.'')] 400, cinema)"
proof -
  let ?d = "\<lparr>data_showtime_id = Some 1, data_seat_code = Some ''A1'', data_card_details = None\<rparr>"
  have l: "lacks_card_number ?d" by (simp add: lacks_card_number_def)
  from missing_card_is_payment_failure [OF l, of 7 "0.5" "''0123456789abcdef0123456789abcdef''" cinema]
    cinema_checks_A1 [of None] l
  show ?thesis by simp
qed

text \<open>
  C10 as stated fails: a body without \<^verbatim>\<open>card_details\<close> that names the unknown showtime 9
  is answered 404 with \<^verbatim>\<open>Showtime not found\<close>, and one that asks for the seat A1 already
  booked for showtime 1 is answered 400 with the seat-already-booked message; neither
  is answered as a failed payment.
\<close>

theorem missing_card_rejected_before_payment:
  "lacks_card_number \<lparr>data_showtime_id = Some 9, data_seat_code = Some ''A1'', data_card_details = None\<rparr> \<and>
   book_ticket 7 \<lparr>data_showtime_id = Some 9, data_seat_code = Some ''A1'', data_card_details = None\<rparr>
      0.5 ''0123456789abcdef0123456789abcdef'' cinema =
     (Response [(''message'', JStr ''Showtime not found'')] 404, cinema) \<and>
   lacks_card_number \<lparr>data_showtime_id = Some 1, data_seat_code = Some ''A1'', data_card_details = None\<rparr> \<and>
   book_ticket 8 \<lparr>data_showtime_id = Some 1, data_seat_code = Some ''A1'', data_card_details = None\<rparr>
      0.5 ''0123456789abcdef0123456789abcdef'' cinema_A1_booked =
     (Response [(''message'', JStr ''Sorry, that seat is already booked!'')] 400, cinema_A1_booked)"
  by (simp add: lacks_card_number_def book_ticket_def book_ticket_checks_def cinema_A1_booked_def cinema_def)

section \<open>Availability is per showtime; the broadcast\<close>

lemma find_filter_None: "(find P xs = None) = (filter P xs = [])"
  by (induction xs) auto

lemma find_filter_Some: "filter P xs \<noteq> [] \<Longrightarrow> \<exists>x. find P xs = Some x"
  by (induction xs) auto

text \<open>
  C6: let seat \<open>C\<close> be booked for showtime \<open>S1\<close> and free for another showtime \<open>S2\<close> of
  the same theater, in which the seat exists. A further request for \<open>C\<close> on \<open>S1\<close> is
  answered 400 with the seat-already-booked message and changes nothing, whatever its
  card is; a request for \<open>C\<close> on \<open>S2\<close> whose payment succeeds is answered 201 and
  its booking is added to the table.
\<close>

theorem seat_scope_is_per_showtime:
  assumes "S1 \<noteq> S2"
    and "find (\<lambda>s. sh_id s = S1) (showtimes st) = Some sh1"
    and "find (\<lambda>s. sh_id s = S2) (showtimes st) = Some sh2"
    and "sh_theater_id sh1 = sh_theater_id sh2"
    and "find (\<lambda>s. seat_theater_id s = sh_theater_id sh1 \<and> seat_code s = C) (seats st) = Some seat_exists"
    and "bookings_for S1 C st \<noteq> []"
    and "bookings_for S2 C st = []"
    and "data_showtime_id d1 = Some S1" and "data_seat_code d1 = Some C"
    and "data_showtime_id d2 = Some S2" and "data_seat_code d2 = Some C"
    and "success (process_payment (card_info_of d2) (sh_price sh2) draw2 uuid2)"
  shows "book_ticket u1 d1 draw1 uuid1 st =
           (Response [(''message'', JStr ''Sorry, that seat is already booked!'')] 400, st) \<and>
         status_code (fst (book_ticket u2 d2 draw2 uuid2 st)) = 201 \<and>
         bookings (snd (book_ticket u2 d2 draw2 uuid2 st)) =
           bookings st @ [\<lparr>bk_id = fresh_id (map bk_id (bookings st)), bk_seat_code = C,
                           bk_user_id = u2, bk_showtime_id = S2\<rparr>]"
proof -
  from assms(6) obtain b where
    b: "find (\<lambda>b. bk_showtime_id b = S1 \<and> bk_seat_code b = C) (bookings st) = Some b"
    unfolding bookings_for_def using find_filter_Some by blast
  have first: "book_ticket u1 d1 draw1 uuid1 st =
           (Response [(''message'', JStr ''Sorry, that seat is already booked!'')] 400, st)"
    using checks_seat_taken [OF assms(8) assms(2) assms(9) assms(5) b] by (rule book_ticket_rejected)
  have free: "find (\<lambda>b. bk_showtime_id b = S2 \<and> bk_seat_code b = C) (bookings st) = None"
    using assms(7) unfolding bookings_for_def by (simp add: find_filter_None)
  have seat2: "find (\<lambda>s. seat_theater_id s = sh_theater_id sh2 \<and> seat_code s = C) (seats st) = Some seat_exists"
    using assms(5) assms(4) by simp
  have cleared: "book_ticket_checks d2 st = Inr (S2, C, sh2)"
    using checks_all_pass [OF assms(10) assms(3) assms(11) seat2 free] .
  have paid: "success (process_payment (card_info_of d2) (sh_price (snd (snd (S2, C, sh2)))) draw2 uuid2)"
    using assms(12) by simp
  have second: "book_ticket u2 d2 draw2 uuid2 st = book_ticket_pay u2 d2 (S2, C, sh2) draw2 uuid2 st"
    using cleared by (rule book_ticket_cleared)
  show ?thesis
    using first second book_ticket_pay_approved [OF paid, of u2 st]
    by (simp add: socketio_emit_def db_session_commit_def)
qed

theorem seat_scope_is_per_showtime_witness:
  "book_ticket 8 (request_for 1 ''A1'') 0.5 ''0123456789abcdef0123456789abcdef'' cinema_A1_booked =
     (Response [(''message'', JStr ''Sorry, that seat is already booked!'')] 400, cinema_A1_booked) \<and>
   status_code (fst (book_ticket 8 (request_for 2 ''A1'') 0.5 ''0123456789abcdef0123456789abcdef'' cinema_A1_booked)) = 201 \<and>
   bookings (snd (book_ticket 8 (request_for 2 ''A1'') 0.5 ''0123456789abcdef0123456789abcdef'' cinema_A1_booked)) =
     [\<lparr>bk_id = 1, bk_seat_code = ''A1'', bk_user_id = 7, bk_showtime_id = 1\<rparr>,
      \<lparr>bk_id = 2, bk_seat_code = ''A1'', bk_user_id = 8, bk_showtime_id = 2\<rparr>]"
proof -
  let ?st = cinema_A1_booked
  let ?sh1 = "\<lparr>sh_id = 1, sh_show_time = ''2024-12-01 18:30'', sh_price = 10, sh_movie_id = 1, sh_theater_id = 1\<rparr>"
  let ?sh2 = "\<lparr>sh_id = 2, sh_show_time = ''2024-12-01 21:00'', sh_price = 12, sh_movie_id = 1, sh_theater_id = 1\<rparr>"
  let ?seat = "\<lparr>seat_id = 1, seat_row = ''A'', seat_number = 1, seat_code = ''A1'', seat_theater_id = 1\<rparr>"
  have h1: "(1::int) \<noteq> 2" by simp
  have h2: "find (\<lambda>s. sh_id s = 1) (showtimes ?st) = Some ?sh1" by (simp add: cinema_A1_booked_def cinema_def)
  have h3: "find (\<lambda>s. sh_id s = 2) (showtimes ?st) = Some ?sh2" by (simp add: cinema_A1_booked_def cinema_def)
  have h4: "sh_theater_id ?sh1 = sh_theater_id ?sh2" by simp
  have h5: "find (\<lambda>s. seat_theater_id s = sh_theater_id ?sh1 \<and> seat_code s = ''A1'') (seats ?st) = Some ?seat"
    by (simp add: cinema_A1_booked_def cinema_def)
  have h6: "bookings_for 1 ''A1'' ?st \<noteq> []" by (simp add: bookings_for_def cinema_A1_booked_def)
  have h7: "bookings_for 2 ''A1'' ?st = []" by (simp add: bookings_for_def cinema_A1_booked_def)
  have h8: "data_showtime_id (request_for 1 ''A1'') = Some 1" by (simp add: request_for_def)
  have h9: "data_seat_code (request_for 1 ''A1'') = Some ''A1''" by (simp add: request_for_def)
  have h10: "data_showtime_id (request_for 2 ''A1'') = Some 2" by (simp add: request_for_def)
  have h11: "data_seat_code (request_for 2 ''A1'') = Some ''A1''" by (simp add: request_for_def)
  have h12: "success (process_payment (card_info_of (request_for 2 ''A1'')) (sh_price ?sh2) 0.5 ''0123456789abcdef0123456789abcdef'')"
    by (simp add: process_payment_def card_info_of_def request_for_def good_card_def card_number_of_def)
  have bks: "bookings ?st = [\<lparr>bk_id = 1, bk_seat_code = ''A1'', bk_user_id = 7, bk_showtime_id = 1\<rparr>]"
    by (simp add: cinema_A1_booked_def)
  from seat_scope_is_per_showtime [OF h1 h2 h3 h4 h5 h6 h7 h8 h9 h10 h11 h12, of 8 "0.5" "''0123456789abcdef0123456789abcdef''" 8]
  show ?thesis by (simp add: bks fresh_id_def)
qed

lemma events_append: "events (xs @ ys) = events xs @ events ys"
  by (induction xs rule: events.induct) simp_all

text \<open>
  C9: a request answered 201 appends its booking (for the request's showtime id and
  seat code) to the booking table and adds exactly two effects, in this order: the
  commit of that booking, then one event named \<^verbatim>\<open>seat_booked\<close> whose payload is that
  showtime id and seat code. So the event comes after the commit, and the list of
  emitted events grows by that one event. A request answered anything else leaves the
  state as it was: it commits nothing and emits nothing.
\<close>

theorem seat_booked_event_exactly_on_success:
  "(status_code (fst (book_ticket uid data draw uuid_hex st)) = 201 \<longrightarrow>
      (\<exists>sid code b.
         data_showtime_id data = Some sid \<and> data_seat_code data = Some code \<and>
         bk_showtime_id b = sid \<and> bk_seat_code b = code \<and> bk_user_id b = uid \<and>
         bookings (snd (book_ticket uid data draw uuid_hex st)) = bookings st @ [b] \<and>
         effects (snd (book_ticket uid data draw uuid_hex st)) =
           effects st @ [Commit [BookingRow b],
                         Emit ''seat_booked'' [(''showtime_id'', JInt sid), (''seat_code'', JStr code)]] \<and>
         emitted (snd (book_ticket uid data draw uuid_hex st)) =
           emitted st @ [(''seat_booked'', [(''showtime_id'', JInt sid), (''seat_code'', JStr code)])])) \<and>
   (status_code (fst (book_ticket uid data draw uuid_hex st)) \<noteq> 201 \<longrightarrow>
      snd (book_ticket uid data draw uuid_hex st) = st \<and>
      effects (snd (book_ticket uid data draw uuid_hex st)) = effects st \<and>
      emitted (snd (book_ticket uid data draw uuid_hex st)) = emitted st)"
proof (cases "book_ticket_checks data st")
  case (Inl r)
  from checks_rejection_not_created [OF Inl] book_ticket_rejected [OF Inl, of uid draw uuid_hex]
  show ?thesis by simp
next
  case (Inr checked)
  note run = book_ticket_cleared [OF Inr, of uid draw uuid_hex]
  note fields = checks_cleared_fields [OF Inr]
  show ?thesis
  proof (cases "success (process_payment (card_info_of data) (sh_price (snd (snd checked))) draw uuid_hex)")
    case True
    let ?b = "\<lparr>bk_id = fresh_id (map bk_id (bookings st)), bk_seat_code = fst (snd checked),
                bk_user_id = uid, bk_showtime_id = fst checked\<rparr>"
    let ?payload = "[(''showtime_id'', JInt (fst checked)), (''seat_code'', JStr (fst (snd checked)))]"
    have res: "snd (book_ticket uid data draw uuid_hex st) =
           socketio_emit ''seat_booked'' ?payload
             (db_session_commit [BookingRow ?b] (st\<lparr>bookings := bookings st @ [?b]\<rparr>))"
      and ok: "status_code (fst (book_ticket uid data draw uuid_hex st)) = 201"
      using run book_ticket_pay_approved [OF True, of uid st] by simp_all
    have bk: "bookings (snd (book_ticket uid data draw uuid_hex st)) = bookings st @ [?b]"
      by (simp add: res socketio_emit_def db_session_commit_def)
    have eff: "effects (snd (book_ticket uid data draw uuid_hex st)) =
           effects st @ [Commit [BookingRow ?b], Emit ''seat_booked'' ?payload]"
      by (simp add: res socketio_emit_def db_session_commit_def)
    have ev: "emitted (snd (book_ticket uid data draw uuid_hex st)) =
           emitted st @ [(''seat_booked'', ?payload)]"
      by (simp add: emitted_def eff events_append)
    have "\<exists>b. bk_showtime_id b = fst checked \<and> bk_seat_code b = fst (snd checked) \<and> bk_user_id b = uid \<and>
           bookings (snd (book_ticket uid data draw uuid_hex st)) = bookings st @ [b] \<and>
           effects (snd (book_ticket uid data draw uuid_hex st)) =
             effects st @ [Commit [BookingRow b], Emit ''seat_booked'' ?payload]"
      using bk eff by (intro exI [of _ ?b]) simp
    then show ?thesis using ok ev fields by blast
  next
    case False
    from run book_ticket_pay_failed [OF False, of uid st]
    show ?thesis by simp
  qed
qed

theorem seat_booked_event_exactly_on_success_witness:
  "status_code (fst (book_ticket 7 (request_for 1 ''A1'') 0.5 ''0123456789abcdef0123456789abcdef'' cinema)) = 201 \<and>
   effects (snd (book_ticket 7 (request_for 1 ''A1'') 0.5 ''0123456789abcdef0123456789abcdef'' cinema)) =
     [Commit [BookingRow \<lparr>bk_id = 1, bk_seat_code = ''A1'', bk_user_id = 7, bk_showtime_id = 1\<rparr>],
      Emit ''seat_booked'' [(''showtime_id'', JInt 1), (''seat_code'', JStr ''A1'')]] \<and>
   emitted (snd (book_ticket 7 (request_for 1 ''A1'') 0.5 ''0123456789abcdef0123456789abcdef'' cinema)) =
     [(''seat_booked'', [(''showtime_id'', JInt 1), (''seat_code'', JStr ''A1'')])] \<and>
   status_code (fst (book_ticket 7 (request_for 1 ''A1'') 0.05 ''0123456789abcdef0123456789abcdef'' cinema)) \<noteq> 201 \<and>
   snd (book_ticket 7 (request_for 1 ''A1'') 0.05 ''0123456789abcdef0123456789abcdef'' cinema) = cinema"
proof -
  have ok: "status_code (fst (book_ticket 7 (request_for 1 ''A1'') 0.5 ''0123456789abcdef0123456789abcdef'' cinema)) = 201"
    by (simp add: book_ticket_def book_ticket_checks_def book_ticket_pay_def process_payment_def
        card_info_of_def card_number_of_def request_for_def good_card_def cinema_def Let_def)
  have ko: "status_code (fst (book_ticket 7 (request_for 1 ''A1'') 0.05 ''0123456789abcdef0123456789abcdef'' cinema)) \<noteq> 201"
    by (simp add: book_ticket_def book_ticket_checks_def book_ticket_pay_def process_payment_def
        card_info_of_def card_number_of_def request_for_def good_card_def cinema_def Let_def)
  have eff: "effects (snd (book_ticket 7 (request_for 1 ''A1'') 0.5 ''0123456789abcdef0123456789abcdef'' cinema)) =
     [Commit [BookingRow \<lparr>bk_id = 1, bk_seat_code = ''A1'', bk_user_id = 7, bk_showtime_id = 1\<rparr>],
      Emit ''seat_booked'' [(''showtime_id'', JInt 1), (''seat_code'', JStr ''A1'')]]"
    by (simp add: book_ticket_def book_ticket_checks_def book_ticket_pay_def process_payment_def
        card_info_of_def card_number_of_def request_for_def good_card_def cinema_def
        socketio_emit_def db_session_commit_def fresh_id_def Let_def)
  have e0: "emitted cinema = []" by (simp add: emitted_def cinema_def)
  have d: "data_showtime_id (request_for 1 ''A1'') = Some 1" "data_seat_code (request_for 1 ''A1'') = Some ''A1''"
    by (simp_all add: request_for_def)
  have ev: "emitted (snd (book_ticket 7 (request_for 1 ''A1'') 0.5 ''0123456789abcdef0123456789abcdef'' cinema)) =
     [(''seat_booked'', [(''showtime_id'', JInt 1), (''seat_code'', JStr ''A1'')])]"
    using seat_booked_event_exactly_on_success
      [of 7 "request_for 1 ''A1''" "0.5" "''0123456789abcdef0123456789abcdef''" cinema] ok e0 d
    by auto
  have same: "snd (book_ticket 7 (request_for 1 ''A1'') 0.05 ''0123456789abcdef0123456789abcdef'' cinema) = cinema"
    using seat_booked_event_exactly_on_success
      [of 7 "request_for 1 ''A1''" "0.05" "''0123456789abcdef0123456789abcdef''" cinema] ko
    by simp
  from ok ko eff ev same show ?thesis by simp
qed

section \<open>The verdict of a review\<close>

text \<open>An answer 201 only comes from a body that has its text, and carries the verdict of that text.\<close>

lemma add_review_created:
  assumes "fst (add_review polarity_of uid data st) = Response body 201"
  shows "\<exists>t. data_text data = Some t \<and>
     verdict_of (Response body 201) =
       Some (JStr (if polarity_of t > 0 then ''Positive'' else ''Negative''))"
proof (cases "data_text data")
  case None
  with assms show ?thesis by (simp add: add_review_def)
next
  case (Some t)
  with assms have "verdict_of (Response body 201) =
       Some (JStr (if polarity_of t > 0 then ''Positive'' else ''Negative''))"
    by (auto simp: add_review_def verdict_of_def Let_def split: option.splits)
  with Some show ?thesis by blast
qed

text \<open>
  C7: a review whose body has its text, movie id and rating is answered 201 with the
  score the scorer gave the text and the verdict \<^verbatim>\<open>Positive\<close> when that score is greater
  than 0 and \<^verbatim>\<open>Negative\<close> otherwise. So the verdict is \<^verbatim>\<open>Positive\<close> exactly when the
  score is greater than 0, \<^verbatim>\<open>Negative\<close> exactly when it is not, and a score of exactly
  0 gives \<^verbatim>\<open>Negative\<close>.
\<close>

theorem verdict_is_sign_of_score:
  assumes "data_text data = Some t" and "data_movie_id data = Some m" and "data_rating data = Some r"
  shows "fst (add_review polarity_of uid data st) =
           Response [(''message'', JStr ''Review added!''),
                     (''sentiment_analysis'',
                        JObj [(''score'', JFloat (polarity_of t)),
                              (''verdict'', JStr (if polarity_of t > 0 then ''Positive'' else ''Negative''))])]
             201 \<and>
         (verdict_of (fst (add_review polarity_of uid data st)) = Some (JStr ''Positive'')) =
           (polarity_of t > 0) \<and>
         (verdict_of (fst (add_review polarity_of uid data st)) = Some (JStr ''Negative'')) =
           (\<not> polarity_of t > 0) \<and>
         (polarity_of t = 0 \<longrightarrow>
            verdict_of (fst (add_review polarity_of uid data st)) = Some (JStr ''Negative''))"
  using assms by (simp add: add_review_def verdict_of_def Let_def)

theorem verdict_is_sign_of_score_witness:
  "verdict_of (fst (add_review sample_polarity 7
      \<lparr>data_text = Some ''I loved this movie'', data_movie_id = Some 1, data_rating = Some 9\<rparr> cinema)) =
     Some (JStr ''Positive'') \<and>
   fst (add_review sample_polarity 7
      \<lparr>data_text = Some [], data_movie_id = Some 1, data_rating = Some 5\<rparr> cinema) =
     Response [(''message'', JStr ''Review added!''),
               (''sentiment_analysis'', JObj [(''score'', JFloat 0), (''verdict'', JStr ''Negative'')])] 201 \<and>
   verdict_of (fst (add_review sample_polarity 7
      \<lparr>data_text = Some [], data_movie_id = Some 1, data_rating = Some 5\<rparr> cinema)) =
     Some (JStr ''Negative'')"
proof -
  let ?liked = "\<lparr>data_text = Some ''I loved this movie'', data_movie_id = Some 1, data_rating = Some 9\<rparr>"
  let ?blank = "\<lparr>data_text = Some [], data_movie_id = Some 1, data_rating = Some 5\<rparr>"
  have pos: "sample_polarity ''I loved this movie'' > 0" and zero: "sample_polarity [] = 0"
    by (simp_all add: sample_polarity_def)
  have l: "data_text ?liked = Some ''I loved this movie''" "data_movie_id ?liked = Some 1"
    "data_rating ?liked = Some 9"
    by simp_all
  have b: "data_text ?blank = Some []" "data_movie_id ?blank = Some 1" "data_rating ?blank = Some 5"
    by simp_all
  from verdict_is_sign_of_score [OF l, of sample_polarity 7 cinema]
    verdict_is_sign_of_score [OF b, of sample_polarity 7 cinema] pos zero
  show ?thesis by (auto simp: verdict_of_def)
qed

section \<open>The booking table under requests served in turn, and under requests that overlap\<close>

lemma distinct_key_count:
  "distinct (map f xs) \<Longrightarrow> length (filter (\<lambda>x. f x = k) xs) \<le> 1"
proof (induction xs)
  case Nil
  then show ?case by simp
next
  case (Cons x xs)
  show ?case
  proof (cases "f x = k")
    case True
    with Cons.prems have "k \<notin> f ` set xs" by simp
    then have "filter (\<lambda>y. f y = k) xs = []"
      by (auto simp: filter_empty_conv)
    with True show ?thesis by simp
  next
    case False
    with Cons show ?thesis by simp
  qed
qed

lemma no_double_booking_count:
  assumes "no_double_booking st"
  shows "length (bookings_for S C st) \<le> 1"
proof -
  have "length (filter (\<lambda>b. (bk_showtime_id b, bk_seat_code b) = (S, C)) (bookings st)) \<le> 1"
    using assms unfolding no_double_booking_def by (rule distinct_key_count)
  then show ?thesis by (simp add: bookings_for_def)
qed

lemma book_ticket_keeps_no_double_booking:
  assumes "no_double_booking st"
  shows "no_double_booking (snd (book_ticket uid data draw uuid_hex st))"
proof (cases "book_ticket_checks data st")
  case (Inl r)
  with assms show ?thesis by (simp add: book_ticket_def)
next
  case (Inr checked)
  note run = book_ticket_cleared [OF Inr, of uid draw uuid_hex]
  show ?thesis
  proof (cases "success (process_payment (card_info_of data) (sh_price (snd (snd checked))) draw uuid_hex)")
    case False
    from run book_ticket_pay_failed [OF False, of uid st] assms show ?thesis by simp
  next
    case True
    from checks_cleared_fields [OF Inr]
    have "find (\<lambda>b. bk_showtime_id b = fst checked \<and> bk_seat_code b = fst (snd checked)) (bookings st) = None"
      by simp
    then have fresh: "(fst checked, fst (snd checked)) \<notin>
        set (map (\<lambda>b. (bk_showtime_id b, bk_seat_code b)) (bookings st))"
      by (auto simp: find_None_iff)
    from run book_ticket_pay_approved [OF True, of uid st]
    have "bookings (snd (book_ticket uid data draw uuid_hex st)) =
        bookings st @ [\<lparr>bk_id = fresh_id (map bk_id (bookings st)), bk_seat_code = fst (snd checked),
                 bk_user_id = uid, bk_showtime_id = fst checked\<rparr>]"
      by (simp add: socketio_emit_def db_session_commit_def)
    with assms fresh show ?thesis by (simp add: no_double_booking_def)
  qed
qed

lemma serve_all_keeps_no_double_booking:
  "no_double_booking st \<Longrightarrow> no_double_booking (serve_all calls st)"
proof (induction calls arbitrary: st)
  case Nil
  then show ?case by (simp add: serve_all_def)
next
  case (Cons c calls)
  from Cons.prems have "no_double_booking (snd (serve c st))"
    unfolding serve_def by (rule book_ticket_keeps_no_double_booking)
  from Cons.IH [OF this] show ?case by (simp add: serve_all_def)
qed

text \<open>
  A schedule that lets one request take both of its steps in a row is that request
  served alone.
\<close>

lemma schedule_of_one_request:
  "run_schedule [0, 0] [Arrived c] st = ([Answered (fst (serve c st))], snd (serve c st))"
  by (cases "book_ticket_checks (call_data c) st")
     (simp_all add: serve_def book_ticket_def Let_def)

text \<open>
  C1, as the code has it: starting from a booking table with at most one booking for
  each showtime and seat code, any sequence of booking requests served one after the
  other leaves at most one booking for every showtime \<open>S\<close> and seat code \<open>C\<close>. The
  handler's only protection is its own look-up before the insert.
\<close>

theorem one_booking_per_seat_when_served_in_turn:
  assumes "no_double_booking st"
  shows "length (bookings_for S C (serve_all calls st)) \<le> 1"
  using serve_all_keeps_no_double_booking [OF assms] by (rule no_double_booking_count)

lemma cinema_two_calls_in_turn:
  "bookings (serve_all [call_for 7 1 ''A1'', call_for 8 1 ''A1''] cinema) =
     [\<lparr>bk_id = 1, bk_seat_code = ''A1'', bk_user_id = 7, bk_showtime_id = 1\<rparr>]"
  by (simp add: serve_all_def serve_def book_ticket_def book_ticket_checks_def book_ticket_pay_def
      process_payment_def card_info_of_def card_number_of_def call_for_def request_for_def
      good_card_def cinema_def socketio_emit_def db_session_commit_def fresh_id_def Let_def)

theorem one_booking_per_seat_when_served_in_turn_witness:
  "no_double_booking cinema \<and>
   bookings (serve_all [call_for 7 1 ''A1'', call_for 8 1 ''A1''] cinema) =
     [\<lparr>bk_id = 1, bk_seat_code = ''A1'', bk_user_id = 7, bk_showtime_id = 1\<rparr>] \<and>
   length (bookings_for 1 ''A1'' (serve_all [call_for 7 1 ''A1'', call_for 8 1 ''A1''] cinema)) \<le> 1"
proof -
  have inv: "no_double_booking cinema" by (simp add: no_double_booking_def cinema_def)
  from one_booking_per_seat_when_served_in_turn [OF inv] inv cinema_two_calls_in_turn
  show ?thesis by simp
qed

text \<open>
  C1 as stated fails for overlapping requests: two requests for seat A1 of showtime 1
  both pass the availability look-up before either commits, both pay, and the table
  ends with two bookings for that seat of that showtime.
\<close>

theorem interleaved_requests_double_book:
  "no_double_booking cinema \<and>
   bookings (snd (run_schedule [0, 1, 0, 1]
      [Arrived (call_for 7 1 ''A1''), Arrived (call_for 8 1 ''A1'')] cinema)) =
     [\<lparr>bk_id = 1, bk_seat_code = ''A1'', bk_user_id = 7, bk_showtime_id = 1\<rparr>,
      \<lparr>bk_id = 2, bk_seat_code = ''A1'', bk_user_id = 8, bk_showtime_id = 1\<rparr>] \<and>
   length (bookings_for 1 ''A1'' (snd (run_schedule [0, 1, 0, 1]
      [Arrived (call_for 7 1 ''A1''), Arrived (call_for 8 1 ''A1'')] cinema))) = 2"
  by (simp add: no_double_booking_def bookings_for_def book_ticket_checks_def book_ticket_pay_def
      process_payment_def card_info_of_def card_number_of_def call_for_def request_for_def
      good_card_def cinema_def socketio_emit_def db_session_commit_def fresh_id_def Let_def)

section \<open>Seat codes within a theater\<close>

text \<open>
  The decimal text of a number determines the number, and a row name without digits
  followed by a number can be read back in one way only.
\<close>

lemma below_ten: "(d::nat) < 10 \<Longrightarrow> d \<in> {0, 1, 2, 3, 4, 5, 6, 7, 8, 9}"
  by auto

lemma digit_char_is_digit: "d < 10 \<Longrightarrow> is_digit (digit_char d)"
  using below_ten [of d] by (auto simp: digit_char_def is_digit_def)

lemma digit_char_inj: "a < 10 \<Longrightarrow> b < 10 \<Longrightarrow> digit_char a = digit_char b \<Longrightarrow> a = b"
  using below_ten [of a] below_ten [of b] by (auto simp: digit_char_def)

lemma str_nat_nonempty: "str_nat n \<noteq> []"
  by (subst str_nat.simps) simp

lemma str_nat_digits: "c \<in> set (str_nat n) \<Longrightarrow> is_digit c"
proof (induction n arbitrary: c rule: str_nat.induct)
  case (1 n)
  show ?case
  proof (cases "n < 10")
    case True
    with "1.prems" show ?thesis
      by (subst (asm) str_nat.simps) (simp add: digit_char_is_digit)
  next
    case False
    with "1.prems" have "c \<in> set (str_nat (n div 10)) \<or> c = digit_char (n mod 10)"
      by (subst (asm) str_nat.simps) auto
    with "1.IH" [OF False] show ?thesis
      by (auto simp: digit_char_is_digit)
  qed
qed

lemma str_nat_inj: "str_nat a = str_nat b \<Longrightarrow> a = b"
proof (induction a arbitrary: b rule: str_nat.induct)
  case (1 n)
  show ?case
  proof (cases "n < 10")
    case small_n: True
    show ?thesis
    proof (cases "b < 10")
      case True
      with small_n "1.prems" show ?thesis
        by (simp add: str_nat.simps [of n] str_nat.simps [of b] digit_char_inj)
    next
      case False
      with small_n "1.prems" have "str_nat (b div 10) = []"
        by (simp add: str_nat.simps [of n] str_nat.simps [of b])
      with str_nat_nonempty show ?thesis by blast
    qed
  next
    case big_n: False
    show ?thesis
    proof (cases "b < 10")
      case True
      with big_n "1.prems" have "str_nat (n div 10) = []"
        by (simp add: str_nat.simps [of n] str_nat.simps [of b])
      with str_nat_nonempty show ?thesis by blast
    next
      case False
      with big_n "1.prems" have eq: "str_nat (n div 10) = str_nat (b div 10)"
        and last: "digit_char (n mod 10) = digit_char (b mod 10)"
        by (simp_all add: str_nat.simps [of n] str_nat.simps [of b])
      from "1.IH" [OF big_n eq] have "n div 10 = b div 10" .
      moreover from last have "n mod 10 = b mod 10"
        by (intro digit_char_inj) simp_all
      ultimately show ?thesis by (metis div_mult_mod_eq)
    qed
  qed
qed

lemma takeWhile_letters:
  assumes "\<forall>c \<in> set r. \<not> is_digit c" and "\<forall>c \<in> set d. is_digit c"
  shows "takeWhile (\<lambda>c. \<not> is_digit c) (r @ d) = r"
proof -
  have "takeWhile (\<lambda>c. \<not> is_digit c) d = []"
    using assms(2) by (cases d) simp_all
  with assms(1) show ?thesis by (simp add: takeWhile_append2)
qed

lemma seat_code_of_inj:
  assumes "\<forall>c \<in> set r1. \<not> is_digit c" and "\<forall>c \<in> set r2. \<not> is_digit c"
    and "1 \<le> a" and "1 \<le> b"
    and "seat_code_of r1 a = seat_code_of r2 b"
  shows "r1 = r2 \<and> a = b"
proof -
  from assms(3-5) have eq: "r1 @ str_nat (nat a) = r2 @ str_nat (nat b)"
    by (simp add: seat_code_of_def str_int_def)
  have "takeWhile (\<lambda>c. \<not> is_digit c) (r1 @ str_nat (nat a)) = r1"
    using assms(1) str_nat_digits by (intro takeWhile_letters) auto
  moreover have "takeWhile (\<lambda>c. \<not> is_digit c) (r2 @ str_nat (nat b)) = r2"
    using assms(2) str_nat_digits by (intro takeWhile_letters) auto
  ultimately have rows: "r1 = r2" using eq by simp
  with eq have "str_nat (nat a) = str_nat (nat b)" by simp
  then have "nat a = nat b" by (rule str_nat_inj)
  with assms(3,4) rows show ?thesis by simp
qed

lemma add_seat_keys:
  "map (\<lambda>s. (seat_theater_id s, seat_code s)) (seats (fst (add_seat tid row num acc))) =
   map (\<lambda>s. (seat_theater_id s, seat_code s)) (seats (fst acc)) @ [(tid, seat_code_of row num)]"
  by (simp add: add_seat_def Let_def)

lemma fold_add_seat_keys:
  "map (\<lambda>s. (seat_theater_id s, seat_code s)) (seats (fst (fold (add_seat tid row) nums acc))) =
   map (\<lambda>s. (seat_theater_id s, seat_code s)) (seats (fst acc)) @
     map (\<lambda>num. (tid, seat_code_of row num)) nums"
  by (induction nums arbitrary: acc) (simp_all add: add_seat_keys)

lemma add_row_keys:
  "map (\<lambda>s. (seat_theater_id s, seat_code s)) (seats (fst (add_row tid n row acc))) =
   map (\<lambda>s. (seat_theater_id s, seat_code s)) (seats (fst acc)) @
     map (\<lambda>num. (tid, seat_code_of row num)) [1..n]"
  unfolding add_row_def by (rule fold_add_seat_keys)

lemma fold_add_row_keys:
  "map (\<lambda>s. (seat_theater_id s, seat_code s)) (seats (fst (fold (add_row tid n) rows acc))) =
   map (\<lambda>s. (seat_theater_id s, seat_code s)) (seats (fst acc)) @
     map (\<lambda>p. (tid, seat_code_of (fst p) (snd p))) (List.product rows [1..n])"
proof (induction rows arbitrary: acc)
  case Nil
  then show ?case by simp
next
  case (Cons row rows)
  show ?case
    by (simp add: Cons.IH add_row_keys comp_def)
qed

lemma new_codes_distinct:
  assumes "distinct rows" and "\<forall>row \<in> set rows. \<forall>c \<in> set row. \<not> is_digit c"
  shows "distinct (map (\<lambda>p. seat_code_of (fst p) (snd p)) (List.product rows [1..n]))"
proof -
  have "inj_on (\<lambda>p. seat_code_of (fst p) (snd p)) (set (List.product rows [1..n]))"
  proof (rule inj_onI)
    fix p q
    assume p: "p \<in> set (List.product rows [1..n])" and q: "q \<in> set (List.product rows [1..n])"
      and eq: "seat_code_of (fst p) (snd p) = seat_code_of (fst q) (snd q)"
    from p q assms(2) have "\<forall>c \<in> set (fst p). \<not> is_digit c" "\<forall>c \<in> set (fst q). \<not> is_digit c"
      "1 \<le> snd p" "1 \<le> snd q"
      by auto
    from seat_code_of_inj [OF this eq] show "p = q"
      by (simp add: prod_eq_iff)
  qed
  moreover have "distinct (List.product rows [1..n])"
    using assms(1) by (simp add: distinct_product)
  ultimately show ?thesis by (simp add: distinct_map)
qed

lemma product_codes:
  "map (\<lambda>p. f (fst p) (snd p)) (List.product rows nums) = concat (map (\<lambda>row. map (f row) nums) rows)"
  by (induction rows) (simp_all add: comp_def)

lemma requested_codes_product:
  "data_rows data = Some rows \<Longrightarrow> data_seats_per_row data = Some n \<Longrightarrow>
   requested_codes data = map (\<lambda>p. seat_code_of (fst p) (snd p)) (List.product rows [1..n])"
  by (simp add: requested_codes_def product_codes)

text \<open>
  The list \<^verbatim>\<open>created_seats\<close> the two loops build, which the handler returns under
  \<^verbatim>\<open>seats\<close>, is the list of requested codes.
\<close>

lemma fold_add_seat_created:
  "snd (fold (add_seat tid row) nums acc) = snd acc @ map (seat_code_of row) nums"
  by (induction nums arbitrary: acc) (simp_all add: add_seat_def Let_def)

lemma fold_add_row_created:
  "snd (fold (add_row tid n) rows acc) =
   snd acc @ concat (map (\<lambda>row. map (seat_code_of row) [1..n]) rows)"
proof (induction rows arbitrary: acc)
  case Nil
  then show ?case by simp
next
  case (Cons row rows)
  have "snd (add_row tid n row acc) = snd acc @ map (seat_code_of row) [1..n]"
    unfolding add_row_def by (rule fold_add_seat_created)
  then show ?case by (simp add: Cons.IH)
qed

lemma add_rows_created:
  "data_rows data = Some rows \<Longrightarrow> data_seats_per_row data = Some n \<Longrightarrow>
   snd (add_rows tid n rows st) = requested_codes data"
  by (simp add: add_rows_def fold_add_row_created requested_codes_def)

lemma add_rows_keys:
  assumes "data_rows data = Some rows" and "data_seats_per_row data = Some n"
  shows "map (\<lambda>s. (seat_theater_id s, seat_code s)) (seats (fst (add_rows tid n rows st))) =
         map (\<lambda>s. (seat_theater_id s, seat_code s)) (seats st) @ map (Pair tid) (requested_codes data)"
  unfolding add_rows_def requested_codes_product [OF assms]
  using fold_add_row_keys [of tid n rows "(st, [])"] by (simp add: comp_def)

lemma add_seats_to_theater_keys:
  assumes "find (\<lambda>t. t_id t = theater_id) (theaters st) = Some theater"
  shows "map (\<lambda>s. (seat_theater_id s, seat_code s)) (seats (snd (add_seats_to_theater theater_id data st))) =
         map (\<lambda>s. (seat_theater_id s, seat_code s)) (seats st) @
         map (Pair theater_id) (requested_codes data)"
proof -
  from assms have tid: "t_id theater = theater_id"
    by (auto simp: find_Some_iff)
  show ?thesis
  proof (cases "data_rows data")
    case None
    with assms show ?thesis
      by (simp add: add_seats_to_theater_def requested_codes_def)
  next
    case rows: (Some rows)
    show ?thesis
    proof (cases "data_seats_per_row data")
      case None
      with assms rows show ?thesis
        by (simp add: add_seats_to_theater_def requested_codes_def db_session_commit_def)
    next
      case (Some n)
      from add_rows_keys [OF rows Some, of theater_id st] assms rows Some tid
      show ?thesis
        by (simp add: add_seats_to_theater_def db_session_commit_def Let_def)
    qed
  qed
qed

lemma add_seats_to_theater_no_theater:
  "find (\<lambda>t. t_id t = theater_id) (theaters st) = None \<Longrightarrow>
   snd (add_seats_to_theater theater_id data st) = st"
  by (simp add: add_seats_to_theater_def)

lemma distinct_with_new_codes:
  "distinct (keys @ map (Pair tid) codes) =
   (distinct keys \<and> distinct codes \<and> (\<forall>k \<in> set keys. fst k = tid \<longrightarrow> snd k \<notin> set codes))"
proof -
  have "distinct (map (Pair tid) codes) = distinct codes"
    by (simp add: distinct_map inj_on_def)
  moreover have "(set keys \<inter> set (map (Pair tid) codes) = {}) =
      (\<forall>k \<in> set keys. fst k = tid \<longrightarrow> snd k \<notin> set codes)"
    by (auto simp: image_iff)
  ultimately show ?thesis by simp
qed

lemma unique_after_add_seats:
  assumes "find (\<lambda>t. t_id t = theater_id) (theaters st) = Some theater"
  shows "seat_codes_unique (snd (add_seats_to_theater theater_id data st)) =
         (seat_codes_unique st \<and> distinct (requested_codes data) \<and>
          (\<forall>s \<in> set (seats st). seat_theater_id s = theater_id \<longrightarrow>
             seat_code s \<notin> set (requested_codes data)))"
  unfolding seat_codes_unique_def add_seats_to_theater_keys [OF assms, of data] distinct_with_new_codes
  by auto

text \<open>
  C8, as the code has it. The handler compares nothing: it inserts a seat for every
  row and number it is given. So, first, the seat codes are unique within each theater
  after a seat-creation request whenever they were unique before, the codes the request
  asks for are pairwise different, and none of them is already the code of a seat of
  that theater. Second, for a theater that exists these conditions are also necessary.
  Third, rows that are pairwise different and contain no decimal digit ask for pairwise
  different codes.
\<close>

theorem seat_codes_unique_iff_new_codes_are_new:
  "(seat_codes_unique st \<and> distinct (requested_codes data) \<and>
    (\<forall>s \<in> set (seats st). seat_theater_id s = theater_id \<longrightarrow>
       seat_code s \<notin> set (requested_codes data)) \<longrightarrow>
    seat_codes_unique (snd (add_seats_to_theater theater_id data st))) \<and>
   (find (\<lambda>t. t_id t = theater_id) (theaters st) \<noteq> None \<and>
    seat_codes_unique (snd (add_seats_to_theater theater_id data st)) \<longrightarrow>
    seat_codes_unique st \<and> distinct (requested_codes data) \<and>
    (\<forall>s \<in> set (seats st). seat_theater_id s = theater_id \<longrightarrow>
       seat_code s \<notin> set (requested_codes data))) \<and>
   (\<forall>rows. data_rows data = Some rows \<and> distinct rows \<and>
      (\<forall>row \<in> set rows. \<forall>c \<in> set row. \<not> is_digit c) \<longrightarrow>
      distinct (requested_codes data))"
proof (intro conjI impI allI)
  assume "seat_codes_unique st \<and> distinct (requested_codes data) \<and>
    (\<forall>s \<in> set (seats st). seat_theater_id s = theater_id \<longrightarrow>
       seat_code s \<notin> set (requested_codes data))"
  then show "seat_codes_unique (snd (add_seats_to_theater theater_id data st))"
    by (cases "find (\<lambda>t. t_id t = theater_id) (theaters st)")
       (simp_all add: add_seats_to_theater_no_theater unique_after_add_seats)
next
  assume a: "find (\<lambda>t. t_id t = theater_id) (theaters st) \<noteq> None \<and>
    seat_codes_unique (snd (add_seats_to_theater theater_id data st))"
  then obtain theater where "find (\<lambda>t. t_id t = theater_id) (theaters st) = Some theater"
    by blast
  from unique_after_add_seats [OF this, of data] a
  have all: "seat_codes_unique st \<and> distinct (requested_codes data) \<and>
    (\<forall>s \<in> set (seats st). seat_theater_id s = theater_id \<longrightarrow>
       seat_code s \<notin> set (requested_codes data))"
    by simp
  from all show "seat_codes_unique st" by simp
  from all show "distinct (requested_codes data)" by simp
  from all show "\<forall>s \<in> set (seats st). seat_theater_id s = theater_id \<longrightarrow>
       seat_code s \<notin> set (requested_codes data)" by simp
next
  fix rows
  assume r: "data_rows data = Some rows \<and> distinct rows \<and>
      (\<forall>row \<in> set rows. \<forall>c \<in> set row. \<not> is_digit c)"
  show "distinct (requested_codes data)"
  proof (cases "data_seats_per_row data")
    case None
    with r show ?thesis by (simp add: requested_codes_def)
  next
    case (Some n)
    from r have "distinct rows" "\<forall>row \<in> set rows. \<forall>c \<in> set row. \<not> is_digit c" by simp_all
    from new_codes_distinct [OF this, of n] r Some show ?thesis
      by (simp add: requested_codes_product)
  qed
qed

lemma str_int_1: "str_int 1 = ''1''"
  by (simp add: str_int_def str_nat.simps digit_char_def)

lemma str_int_2: "str_int 2 = ''2''"
  by (simp add: str_int_def str_nat.simps digit_char_def)

lemma upto_1_2: "[1..2] = [1, 2::int]"
  by (simp add: upto.simps)

lemma requested_codes_rows_B: "requested_codes rows_B = [''B1'', ''B2'']"
  by (simp add: requested_codes_def rows_B_def seat_code_of_def upto_1_2 str_int_1 str_int_2)

theorem seat_codes_unique_iff_new_codes_are_new_witness:
  "seat_codes_unique cinema \<and>
   requested_codes rows_B = [''B1'', ''B2''] \<and>
   map seat_code (seats (snd (add_seats_to_theater 1 rows_B cinema))) = [''A1'', ''A2'', ''B1'', ''B2''] \<and>
   seat_codes_unique (snd (add_seats_to_theater 1 rows_B cinema))"
proof -
  have h1: "seat_codes_unique cinema" by (simp add: seat_codes_unique_def cinema_def)
  have h2: "distinct (requested_codes rows_B)" by (simp add: requested_codes_rows_B)
  have h3: "\<forall>s \<in> set (seats cinema). seat_theater_id s = 1 \<longrightarrow> seat_code s \<notin> set (requested_codes rows_B)"
    by (simp add: requested_codes_rows_B cinema_def)
  have run: "map seat_code (seats (snd (add_seats_to_theater 1 rows_B cinema))) = [''A1'', ''A2'', ''B1'', ''B2'']"
    by (simp add: add_seats_to_theater_def add_rows_def add_row_def add_seat_def seat_code_of_def
        db_session_commit_def rows_B_def cinema_def upto_1_2 str_int_1 str_int_2 Let_def)
  from seat_codes_unique_iff_new_codes_are_new [of cinema rows_B 1] h1 h2 h3
  have "seat_codes_unique (snd (add_seats_to_theater 1 rows_B cinema))" by blast
  with h1 run show ?thesis by (simp add: requested_codes_rows_B)
qed

text \<open>
  C8 as stated fails: sending \<^verbatim>\<open>{"rows": ["B"], "seats_per_row": 2}\<close> twice for theater 1
  stores the codes B1 and B2 twice in that theater.
\<close>

theorem repeated_seating_duplicates_codes:
  "seat_codes_unique bare_hall \<and>
   map (\<lambda>s. (seat_theater_id s, seat_code s))
     (seats (add_seats_all [(1, rows_B), (1, rows_B)] bare_hall)) =
     [(1, ''B1''), (1, ''B2''), (1, ''B1''), (1, ''B2'')] \<and>
   \<not> seat_codes_unique (add_seats_all [(1, rows_B), (1, rows_B)] bare_hall) \<and>
   length (seats_with 1 ''B1'' (add_seats_all [(1, rows_B), (1, rows_B)] bare_hall)) = 2"
  by (simp add: seat_codes_unique_def seats_with_def add_seats_all_def add_seats_to_theater_def
      add_rows_def add_row_def add_seat_def seat_code_of_def db_session_commit_def rows_B_def
      bare_hall_def cinema_def upto_1_2 str_int_1 str_int_2 Let_def)

end
